theory Spec2Isabelle
  imports Complex_Main "HOL-Library.AList" "HOL-Library.Multiset"
begin

section \<open>The budget analyser: data model\<close>

text \<open>
  The program is the function \<open>processar_dados_streamlit\<close> of \<open>app.py\<close>: it takes the
  budget table (\<open>df_orcamento\<close>), the expenditure table (\<open>df_gastos\<close>), a fiscal year and a
  range of periods, and returns the updated budget table or \<open>None\<close>.

  Modelling decisions:
  \<^item> Numbers are exact rationals; \<open>None\<close> is the null cell (\<open>NaN\<close>, \<open>pd.NA\<close>). Binary
    floating point is not modelled.
  \<^item> A budget row carries its two key columns \<open>Fiscal Year\<close> and \<open>WBS Element\<close> as typed
    fields, and every other column as a named cell, in column order. The engine never
    compares those two names with anything, so they are not listed among \<open>columns\<close>.
  \<^item> An expenditure row is typed: the four columns the \<open>groupby\<close> reads.
  \<^item> Column names are strings over the code points 0..255; there \<open>\d\<close> is \<open>0..9\<close>.
  \<^item> Reading the two spreadsheets is outside the model: the inputs are the tables read.
\<close>

type_synonym cell = "rat option"

record gasto =
  g_fiscal_year :: int
  g_wbs :: string
  g_period :: int
  g_value :: rat

record linha =
  fiscal_year :: int
  wbs_element :: string
  cells :: "(string \<times> cell) list"

record dataframe =
  columns :: "string list"
  rows :: "linha list"

text \<open>\<open>st.error\<close> followed by \<open>return None\<close>: the missing column, or the caught exception.\<close>

datatype erro = MissingColumnError string | UnexpectedError

text \<open>A returned table, with (\<open>Warning\<close>) or without (\<open>Success\<close>) \<open>st.warning\<close>.\<close>

datatype resultado = Success dataframe | Warning dataframe

fun tabela :: "resultado \<Rightarrow> dataframe" where
  "tabela (Success df) = df"
| "tabela (Warning df) = df"

section \<open>Column operations of the data frame\<close>

definition startswith :: "string \<Rightarrow> string \<Rightarrow> bool" where
  "startswith s pre = (take (length pre) s = pre)"

text \<open>\<open>df.loc[:, ~df.columns.str.startswith('Unnamed')]\<close>\<close>

definition drop_unnamed :: "dataframe \<Rightarrow> dataframe" where
  "drop_unnamed df =
     \<lparr>columns = filter (\<lambda>c. \<not> startswith c ''Unnamed'') (columns df),
      rows = map (\<lambda>r. r\<lparr>cells := filter (\<lambda>(c, v). \<not> startswith c ''Unnamed'') (cells r)\<rparr>)
                 (rows df)\<rparr>"

text \<open>The cell of a row under a column name, if the row has that column.\<close>

definition cell_at :: "linha \<Rightarrow> string \<Rightarrow> cell option" where
  "cell_at r c = map_of (cells r) c"

text \<open>The value read from a column: null when the cell is null.\<close>

definition cell_value :: "string \<Rightarrow> linha \<Rightarrow> cell" where
  "cell_value c r = (case cell_at r c of Some v \<Rightarrow> v | None \<Rightarrow> None)"

text \<open>Writing one cell: in place when the column is there, appended otherwise.\<close>

definition set_cell :: "string \<Rightarrow> cell \<Rightarrow> linha \<Rightarrow> linha" where
  "set_cell c v r = r\<lparr>cells := AList.update c v (cells r)\<rparr>"

text \<open>\<open>df[c] = ...\<close>: one value per row; a new column goes last.\<close>

definition assign_column :: "string \<Rightarrow> (linha \<Rightarrow> cell) \<Rightarrow> dataframe \<Rightarrow> dataframe" where
  "assign_column c f df =
     \<lparr>columns = (if c \<in> set (columns df) then columns df else columns df @ [c]),
      rows = map (\<lambda>r. set_cell c (f r) r) (rows df)\<rparr>"

text \<open>\<open>df.drop(columns=[c], inplace=True)\<close>, for a column that is there.\<close>

definition drop_column :: "string \<Rightarrow> dataframe \<Rightarrow> dataframe" where
  "drop_column c df =
     \<lparr>columns = removeAll c (columns df),
      rows = map (\<lambda>r. r\<lparr>cells := AList.delete c (cells r)\<rparr>) (rows df)\<rparr>"

section \<open>Formatting and matching period column names\<close>

text \<open>\<open>str(n)\<close> for an integer, as the f-string \<open>f'Period {periodo_num}'\<close> renders it.\<close>

fun dec_nat :: "nat \<Rightarrow> string" where
  "dec_nat n = (if n < 10 then [char_of (48 + n)]
                else dec_nat (n div 10) @ [char_of (48 + n mod 10)])"

declare dec_nat.simps [simp del]

definition str_int :: "int \<Rightarrow> string" where
  "str_int i = (if i < 0 then CHR ''-'' # dec_nat (nat (- i)) else dec_nat (nat i))"

definition period_col :: "int \<Rightarrow> string" where
  "period_col p = ''Period '' @ str_int p"

definition is_digit :: "char \<Rightarrow> bool" where
  "is_digit c = (48 \<le> (of_char c :: nat) \<and> (of_char c :: nat) \<le> 57)"

text \<open>
  \<open>re.match(r'^Period \d+$', col)\<close>. Without \<open>re.MULTILINE\<close>, \<open>$\<close> matches at the end
  of the string and also just before a newline that is its last character.
\<close>

definition match_period :: "string \<Rightarrow> bool" where
  "match_period col =
     (startswith col ''Period '' \<and>
      (let rest = drop 7 col;
           body = (if rest \<noteq> [] \<and> last rest = CHR 0x0A then butlast rest else rest)
       in body \<noteq> [] \<and> list_all is_digit body))"

text \<open>Python compares strings code point by code point; a proper prefix is smaller.\<close>

fun str_le :: "string \<Rightarrow> string \<Rightarrow> bool" where
  "str_le [] ys = True"
| "str_le (x # xs) [] = False"
| "str_le (x # xs) (y # ys) =
     (if (of_char x :: nat) < of_char y then True
      else if (of_char x :: nat) = of_char y then str_le xs ys
      else False)"

fun insert_str :: "string \<Rightarrow> string list \<Rightarrow> string list" where
  "insert_str s [] = [s]"
| "insert_str s (t # ts) = (if str_le s t then s # t # ts else t # insert_str s ts)"

text \<open>\<open>sorted(...)\<close> on a list of strings, with no key.\<close>

definition sorted_py :: "string list \<Rightarrow> string list" where
  "sorted_py xs = foldr insert_str xs []"

text \<open>\<open>sorted([col for col in df_resultado.columns if re.match(r'^Period \d+$', col)])\<close>\<close>

definition colunas_periodo :: "dataframe \<Rightarrow> string list" where
  "colunas_periodo df = sorted_py (filter match_period (columns df))"

section \<open>Stage 1: replacing budget values by the expenditures\<close>

type_synonym agrupado = "(int \<times> string \<times> int) \<times> rat"

definition gasto_key :: "gasto \<Rightarrow> int \<times> string \<times> int" where
  "gasto_key g = (g_fiscal_year g, g_wbs g, g_period g)"

text \<open>
  \<open>df_gastos.groupby(['Fiscal Year', 'WBS Element', 'Period'])[...].sum().reset_index()\<close>:
  one row per key that occurs, holding the sum of the values under that key. The order
  of the groups is not kept here: the left join below takes its order from the budget.
\<close>

definition gastos_agrupados :: "gasto list \<Rightarrow> agrupado list" where
  "gastos_agrupados gs =
     map (\<lambda>k. (k, sum_list (map g_value (filter (\<lambda>g. gasto_key g = k) gs))))
         (remdups (map gasto_key gs))"

text \<open>\<open>gastos_agrupados[(gastos_agrupados['Period'] == p) & (gastos_agrupados['Fiscal Year'] == ano)]\<close>\<close>

definition gastos_do_periodo :: "agrupado list \<Rightarrow> int \<Rightarrow> int \<Rightarrow> agrupado list" where
  "gastos_do_periodo agg p ano = filter (\<lambda>((y, w, q), v). q = p \<and> y = ano) agg"

definition coluna_gasto_temp :: string where
  "coluna_gasto_temp = ''gasto_temp_para_atualizar''"

text \<open>
  \<open>pd.merge(df_resultado, gastos_do_periodo[[...]], on=['WBS Element', 'Fiscal Year'],
  how='left')\<close>: every budget row, in order, once per matching right row, and once with a
  null when no right row matches.
\<close>

definition merge_left :: "linha list \<Rightarrow> agrupado list \<Rightarrow> linha list" where
  "merge_left rs right =
     concat (map (\<lambda>r.
       case filter (\<lambda>((y, w, q), v). w = wbs_element r \<and> y = fiscal_year r) right of
         [] \<Rightarrow> [set_cell coluna_gasto_temp None r]
       | m # ms \<Rightarrow> map (\<lambda>(k, v). set_cell coluna_gasto_temp (Some v) r) (m # ms)) rs)"

text \<open>\<open>.fillna(0)\<close> and \<open>.round(0)\<close> (NumPy rounds halves to the even neighbour).\<close>

definition fillna0 :: "cell \<Rightarrow> rat" where
  "fillna0 v = (case v of None \<Rightarrow> 0 | Some x \<Rightarrow> x)"

definition round0 :: "rat \<Rightarrow> rat" where
  "round0 x =
     (let f = \<lfloor>x\<rfloor>; d = x - of_int f
      in if d < 1 / 2 then of_int f
         else if 1 / 2 < d then of_int (f + 1)
         else if even f then of_int f else of_int (f + 1))"

text \<open>
  \<open>condicao_ano = df['Fiscal Year'] == ano\<close>;
  \<open>df.loc[condicao_ano, target] = df.loc[condicao_ano, temp].fillna(0).round(0)\<close>
\<close>

definition atualizar_linhas :: "int \<Rightarrow> string \<Rightarrow> dataframe \<Rightarrow> dataframe" where
  "atualizar_linhas ano target df =
     df\<lparr>rows := map (\<lambda>r. if fiscal_year r = ano
                          then set_cell target
                                 (Some (round0 (fillna0 (cell_value coluna_gasto_temp r)))) r
                          else r) (rows df)\<rparr>"

text \<open>
  One turn of the loop over \<open>range(periodo_inicial, periodo_final + 1)\<close>. When the budget
  already has a column called \<open>gasto_temp_para_atualizar\<close>, the merge renames both with
  suffixes, the read of the temporary column raises \<open>KeyError\<close>, and the function's
  \<open>except\<close> returns \<open>None\<close>.
\<close>

definition atualizar_periodo :: "agrupado list \<Rightarrow> int \<Rightarrow> int \<Rightarrow> dataframe \<Rightarrow> erro + dataframe" where
  "atualizar_periodo agg ano p df =
     (let target = period_col p in
      if target \<notin> set (columns df) then Inr df
      else
        let gp = gastos_do_periodo agg p ano in
        case (if gp \<noteq> []
              then (if coluna_gasto_temp \<in> set (columns df) then Inl UnexpectedError
                    else Inr \<lparr>columns = columns df @ [coluna_gasto_temp],
                              rows = merge_left (rows df) gp\<rparr>)
              else Inr (assign_column coluna_gasto_temp (\<lambda>r. None) df)) of
          Inl e \<Rightarrow> Inl e
        | Inr dfm \<Rightarrow> Inr (drop_column coluna_gasto_temp (atualizar_linhas ano target dfm)))"

fun atualizar_gastos :: "agrupado list \<Rightarrow> int \<Rightarrow> int list \<Rightarrow> dataframe \<Rightarrow> erro + dataframe" where
  "atualizar_gastos agg ano [] df = Inr df"
| "atualizar_gastos agg ano (p # ps) df =
     (case atualizar_periodo agg ano p df of
        Inl e \<Rightarrow> Inl e
      | Inr df' \<Rightarrow> atualizar_gastos agg ano ps df')"

section \<open>Stage 2: totals and balance\<close>

text \<open>A numeric read that skips nulls, as \<open>sum\<close> does (\<open>skipna\<close>).\<close>

definition num_at :: "string \<Rightarrow> linha \<Rightarrow> rat" where
  "num_at c r = fillna0 (cell_value c r)"

text \<open>\<open>df[colunas_periodo].sum(axis=1)\<close>, for one row.\<close>

definition row_sum :: "string list \<Rightarrow> linha \<Rightarrow> rat" where
  "row_sum cs r = sum_list (map (\<lambda>c. num_at c r) cs)"

text \<open>\<open>df.groupby('WBS Element')[c].transform('sum')\<close>, for the rows of one project.\<close>

definition group_sum :: "string \<Rightarrow> linha list \<Rightarrow> string \<Rightarrow> rat" where
  "group_sum c rs w = sum_list (map (num_at c) (filter (\<lambda>r. wbs_element r = w) rs))"

text \<open>\<open>df.groupby('WBS Element')['Fiscal Year'].transform('max')\<close>, for a row \<open>r\<close> of the table.\<close>

definition max_ano_por_wbs :: "linha list \<Rightarrow> linha \<Rightarrow> int" where
  "max_ano_por_wbs rs r =
     fold max (map fiscal_year (filter (\<lambda>r'. wbs_element r' = wbs_element r) rs)) (fiscal_year r)"

text \<open>Subtraction of two columns: null when either side is null.\<close>

definition sub_cell :: "cell \<Rightarrow> cell \<Rightarrow> cell" where
  "sub_cell a b = (case a of None \<Rightarrow> None
                   | Some x \<Rightarrow> (case b of None \<Rightarrow> None | Some y \<Rightarrow> Some (x - y)))"

text \<open>\<open>df.loc[mask_nao_e_max_ano, ['Total Orcado', 'Total Acumulado', 'Saldo']] = pd.NA\<close>\<close>

definition mascarar :: "dataframe \<Rightarrow> dataframe" where
  "mascarar df =
     df\<lparr>rows := map (\<lambda>r. if fiscal_year r < max_ano_por_wbs (rows df) r
                          then set_cell ''Saldo'' None
                                 (set_cell ''Total Acumulado'' None
                                   (set_cell ''Total Orcado'' None r))
                          else r) (rows df)\<rparr>"

definition calcular_totais :: "dataframe \<Rightarrow> erro + resultado" where
  "calcular_totais df =
     (let cp = colunas_periodo df in
      if cp = [] then Inr (Warning df)
      else
        let df1 = assign_column ''OrcamentoRealPorLinha'' (\<lambda>r. Some (row_sum cp r)) df;
            df2 = assign_column ''Total Acumulado''
                    (\<lambda>r. Some (group_sum ''OrcamentoRealPorLinha'' (rows df1) (wbs_element r))) df1
        in if ''Total'' \<notin> set (columns df2) then Inl (MissingColumnError ''Total'')
           else
             let df3 = assign_column ''Total Orcado''
                         (\<lambda>r. Some (group_sum ''Total'' (rows df2) (wbs_element r))) df2;
                 df4 = assign_column ''Saldo''
                         (\<lambda>r. sub_cell (cell_value ''Total Orcado'' r)
                                        (cell_value ''Total Acumulado'' r)) df3
             in Inr (Success (drop_column ''OrcamentoRealPorLinha'' (mascarar df4))))"

section \<open>The whole function\<close>

definition processar_dados_streamlit ::
    "dataframe \<Rightarrow> gasto list \<Rightarrow> int \<Rightarrow> int \<Rightarrow> int \<Rightarrow> erro + resultado" where
  "processar_dados_streamlit df_orcamento df_gastos ano periodo_inicial periodo_final =
     (let agg = gastos_agrupados df_gastos;
          df_resultado = drop_unnamed df_orcamento
      in case atualizar_gastos agg ano [periodo_inicial..periodo_final] df_resultado of
           Inl e \<Rightarrow> Inl e
         | Inr df \<Rightarrow> calcular_totais df)"

section \<open>Notions used to state the properties\<close>

text \<open>
  Reading a decimal rendering back: the inverse of \<open>str_int\<close>, and with it the period
  number of a column \<open>Period p\<close>.
\<close>

definition nat_of_dec :: "string \<Rightarrow> nat" where
  "nat_of_dec s = foldl (\<lambda>a ch. 10 * a + (of_char ch - 48)) 0 s"

definition int_of_str :: "string \<Rightarrow> int" where
  "int_of_str s = (case s of [] \<Rightarrow> 0 | ch # t \<Rightarrow> if ch = CHR ''-'' then - int (nat_of_dec t) else int (nat_of_dec s))"

definition period_of :: "string \<Rightarrow> int" where
  "period_of c = int_of_str (drop 7 c)"

text \<open>
  The sum of the values of the expenditure rows under one key
  (fiscal year, project code, period).
\<close>

definition total_gasto :: "gasto list \<Rightarrow> int \<Rightarrow> string \<Rightarrow> int \<Rightarrow> rat" where
  "total_gasto gs ano w p =
     sum_list (map g_value
       (filter (\<lambda>g. g_fiscal_year g = ano \<and> g_wbs g = w \<and> g_period g = p) gs))"

text \<open>
  What the left join brings to a budget row: the aggregated amount of its project for the
  period, when the row is of the target year and the project has one.
\<close>

definition gasto_de :: "agrupado list \<Rightarrow> int \<Rightarrow> int \<Rightarrow> linha \<Rightarrow> cell" where
  "gasto_de agg ano p r =
     (if fiscal_year r = ano then map_of agg (ano, wbs_element r, p) else None)"

text \<open>
The key of a budget row, and the column names that stage 2 writes or drops.
\<close>

definition linha_key :: "linha \<Rightarrow> string \<times> int" where
  "linha_key r = (wbs_element r, fiscal_year r)"

definition colunas_derivadas :: "string set" where
  "colunas_derivadas = {''OrcamentoRealPorLinha'', ''Total Acumulado'', ''Total Orcado'', ''Saldo''}"

text \<open>
  The effect of the loop on one row, for a set \<open>W\<close> of period columns it has written:
  a row of the target year holds the rounded total in each of them, every other cell but
  the temporary column's is as before.
\<close>

definition linha_atualizada :: "gasto list \<Rightarrow> int \<Rightarrow> string set \<Rightarrow> linha \<Rightarrow> linha \<Rightarrow> bool" where
  "linha_atualizada gs ano W r r' \<longleftrightarrow>
     fiscal_year r' = fiscal_year r \<and> wbs_element r' = wbs_element r \<and>
     (\<forall>c. c \<noteq> coluna_gasto_temp \<longrightarrow>
        cell_at r' c =
          (if fiscal_year r = ano \<and> c \<in> W
           then Some (Some (round0 (total_gasto gs ano (wbs_element r) (period_of c))))
           else cell_at r c))"

text \<open>
The effect of stage 2 on one row of a table with rows \<open>rs\<close>.
\<close>

definition linha_totais :: "string list \<Rightarrow> linha list \<Rightarrow> linha \<Rightarrow> linha \<Rightarrow> bool" where
  "linha_totais cp rs r r' \<longleftrightarrow>
     fiscal_year r' = fiscal_year r \<and> wbs_element r' = wbs_element r \<and>
     (\<forall>c. c \<notin> colunas_derivadas \<longrightarrow> cell_at r' c = cell_at r c) \<and>
     (if fiscal_year r < max_ano_por_wbs rs r
      then cell_at r' ''Total Orcado'' = Some None \<and>
           cell_at r' ''Total Acumulado'' = Some None \<and>
           cell_at r' ''Saldo'' = Some None
      else cell_at r' ''Total Orcado'' = Some (Some (group_sum ''Total'' rs (wbs_element r))) \<and>
           cell_at r' ''Total Acumulado'' =
             Some (Some (sum_list (map (row_sum cp)
                           (filter (\<lambda>x. wbs_element x = wbs_element r) rs)))) \<and>
           cell_at r' ''Saldo'' =
             Some (Some (group_sum ''Total'' rs (wbs_element r) -
                         sum_list (map (row_sum cp)
                           (filter (\<lambda>x. wbs_element x = wbs_element r) rs)))))"

text \<open>
The effect of the whole function on one row of the budget.
\<close>

definition linha_saida :: "gasto list \<Rightarrow> int \<Rightarrow> string set \<Rightarrow> linha \<Rightarrow> linha \<Rightarrow> bool" where
  "linha_saida gs ano W r r' \<longleftrightarrow>
     fiscal_year r' = fiscal_year r \<and> wbs_element r' = wbs_element r \<and>
     (\<forall>c. \<not> startswith c ''Unnamed'' \<longrightarrow> c \<noteq> coluna_gasto_temp \<longrightarrow> c \<notin> colunas_derivadas \<longrightarrow>
        cell_at r' c =
          (if fiscal_year r = ano \<and> c \<in> W
           then Some (Some (round0 (total_gasto gs ano (wbs_element r) (period_of c))))
           else cell_at r c))"

subsection \<open>Example inputs\<close>

text \<open>
  The scenario of the specification: one project \<open>P1\<close>, rows for 2025 and 2026, columns
  \<open>Period 1\<close> to \<open>Period 3\<close> with arbitrary cells, \<open>Total\<close> of 300 on each row, and two
  expenditures of 50 and 25 in period 1 of 2026; and the table the function returns on it.
\<close>

definition orcamento_c7 :: "cell \<Rightarrow> cell \<Rightarrow> cell \<Rightarrow> cell \<Rightarrow> cell \<Rightarrow> cell \<Rightarrow> dataframe" where
  "orcamento_c7 a1 a2 a3 b1 b2 b3 =
     \<lparr>columns = [''Period 1'', ''Period 2'', ''Period 3'', ''Total''],
      rows = [\<lparr>fiscal_year = 2025, wbs_element = ''P1'',
               cells = [(''Period 1'', a1), (''Period 2'', a2), (''Period 3'', a3),
                        (''Total'', Some 300)]\<rparr>,
              \<lparr>fiscal_year = 2026, wbs_element = ''P1'',
               cells = [(''Period 1'', b1), (''Period 2'', b2), (''Period 3'', b3),
                        (''Total'', Some 300)]\<rparr>]\<rparr>"

definition gastos_c7 :: "gasto list" where
  "gastos_c7 = [\<lparr>g_fiscal_year = 2026, g_wbs = ''P1'', g_period = 1, g_value = 50\<rparr>,
                \<lparr>g_fiscal_year = 2026, g_wbs = ''P1'', g_period = 1, g_value = 25\<rparr>]"

definition saida_c7 :: "cell \<Rightarrow> cell \<Rightarrow> cell \<Rightarrow> dataframe" where
  "saida_c7 a1 a2 a3 =
     \<lparr>columns = [''Period 1'', ''Period 2'', ''Period 3'', ''Total'',
                 ''Total Acumulado'', ''Total Orcado'', ''Saldo''],
      rows = [\<lparr>fiscal_year = 2025, wbs_element = ''P1'',
               cells = [(''Period 1'', a1), (''Period 2'', a2), (''Period 3'', a3),
                        (''Total'', Some 300), (''Total Acumulado'', None),
                        (''Total Orcado'', None), (''Saldo'', None)]\<rparr>,
              \<lparr>fiscal_year = 2026, wbs_element = ''P1'',
               cells = [(''Period 1'', Some 75), (''Period 2'', Some 0), (''Period 3'', Some 0),
                        (''Total'', Some 300),
                        (''Total Acumulado'', Some (fillna0 a1 + fillna0 a2 + fillna0 a3 + 75)),
                        (''Total Orcado'', Some 600),
                        (''Saldo'', Some (600 - (fillna0 a1 + fillna0 a2 + fillna0 a3 + 75)))]\<rparr>]\<rparr>"

definition orcamento_ex :: dataframe where
  "orcamento_ex = orcamento_c7 (Some 10) (Some 20) (Some 30) (Some 1) (Some 2) (Some 3)"

definition saida_ex :: dataframe where
  "saida_ex = saida_c7 (Some 10) (Some 20) (Some 30)"

text \<open>
  A budget with two rows under the same key; one with no period column and a placeholder
  column; one with a period column and no \<open>Total\<close>; one whose only column is \<open>Period -1\<close>.
\<close>

definition orcamento_dup :: dataframe where
  "orcamento_dup =
     \<lparr>columns = [''Period 1'', ''Total''],
      rows = [\<lparr>fiscal_year = 2026, wbs_element = ''P1'',
               cells = [(''Period 1'', Some 4), (''Total'', Some 100)]\<rparr>,
              \<lparr>fiscal_year = 2026, wbs_element = ''P1'',
               cells = [(''Period 1'', Some 5), (''Total'', Some 200)]\<rparr>]\<rparr>"

definition saida_dup :: dataframe where
  "saida_dup =
     \<lparr>columns = [''Period 1'', ''Total'', ''Total Acumulado'', ''Total Orcado'', ''Saldo''],
      rows = [\<lparr>fiscal_year = 2026, wbs_element = ''P1'',
               cells = [(''Period 1'', Some 75), (''Total'', Some 100),
                        (''Total Acumulado'', Some 150), (''Total Orcado'', Some 300),
                        (''Saldo'', Some 150)]\<rparr>,
              \<lparr>fiscal_year = 2026, wbs_element = ''P1'',
               cells = [(''Period 1'', Some 75), (''Total'', Some 200),
                        (''Total Acumulado'', Some 150), (''Total Orcado'', Some 300),
                        (''Saldo'', Some 150)]\<rparr>]\<rparr>"

definition orcamento_sem_periodo :: dataframe where
  "orcamento_sem_periodo =
     \<lparr>columns = [''Custo'', ''Unnamed: 1''],
      rows = [\<lparr>fiscal_year = 2026, wbs_element = ''P1'',
               cells = [(''Custo'', Some 5), (''Unnamed: 1'', None)]\<rparr>]\<rparr>"

definition orcamento_sem_total :: dataframe where
  "orcamento_sem_total =
     \<lparr>columns = [''Period 1''],
      rows = [\<lparr>fiscal_year = 2026, wbs_element = ''P1'', cells = [(''Period 1'', Some 4)]\<rparr>]\<rparr>"


section \<open>Period column names\<close>

lemma nat_of_dec_snoc: "nat_of_dec (s @ [ch]) = 10 * nat_of_dec s + (of_char ch - 48)"
  by (simp add: nat_of_dec_def)

lemma nat_of_dec_dec_nat: "nat_of_dec (dec_nat n) = n"
proof (induction n rule: dec_nat.induct)
  case (1 n)
  show ?case
  proof (cases "n < 10")
    case True
    then show ?thesis by (simp add: dec_nat.simps [of n] nat_of_dec_def)
  next
    case False
    then have "nat_of_dec (dec_nat n) = 10 * nat_of_dec (dec_nat (n div 10)) + (of_char (char_of (48 + n mod 10)) - 48)"
      by (simp add: dec_nat.simps [of n] nat_of_dec_snoc)
    also have "\<dots> = 10 * (n div 10) + n mod 10"
      using 1 False by simp
    finally show ?thesis by simp
  qed
qed

lemma dec_nat_digits: "list_all is_digit (dec_nat n)"
proof (induction n rule: dec_nat.induct)
  case (1 n)
  show ?case
  proof (cases "n < 10")
    case True
    then show ?thesis by (simp add: dec_nat.simps [of n] is_digit_def)
  next
    case False
    moreover have "n mod 10 < 10" by simp
    ultimately show ?thesis using 1
      by (simp add: dec_nat.simps [of n] is_digit_def)
  qed
qed

lemma dec_nat_not_Nil: "dec_nat n \<noteq> []"
  by (subst dec_nat.simps) simp

lemma dec_nat_hd: "\<exists>ch t. dec_nat n = ch # t \<and> ch \<noteq> CHR ''-''"
proof -
  obtain ch t where e: "dec_nat n = ch # t"
    using dec_nat_not_Nil [of n] by (cases "dec_nat n") auto
  have "is_digit ch" using dec_nat_digits [of n] e by simp
  then have "ch \<noteq> CHR ''-''" by (auto simp: is_digit_def)
  then show ?thesis using e by blast
qed

lemma int_of_str_str_int: "int_of_str (str_int i) = i"
proof (cases "i < 0")
  case True
  then show ?thesis by (simp add: str_int_def int_of_str_def nat_of_dec_dec_nat)
next
  case False
  obtain ch t where e: "dec_nat (nat i) = ch # t" "ch \<noteq> CHR ''-''"
    using dec_nat_hd by blast
  have "int_of_str (dec_nat (nat i)) = int (nat_of_dec (dec_nat (nat i)))"
    using e by (simp add: int_of_str_def)
  then show ?thesis using False by (simp add: str_int_def nat_of_dec_dec_nat)
qed

lemma period_of_period_col: "period_of (period_col p) = p"
  by (simp add: period_of_def period_col_def int_of_str_str_int)

lemma period_col_inj: "period_col p = period_col q \<Longrightarrow> p = q"
  by (metis period_of_period_col)

lemma period_col_prefix: "startswith (period_col p) ''Period ''"
  by (simp add: startswith_def period_col_def)

lemma match_period_prefix: "match_period c \<Longrightarrow> startswith c ''Period ''"
  by (simp add: match_period_def)

lemma prefix_not_reserved:
  assumes "startswith c ''Period ''"
  shows "c \<noteq> coluna_gasto_temp" "c \<noteq> ''OrcamentoRealPorLinha''" "c \<noteq> ''Total Acumulado''"
    "c \<noteq> ''Total Orcado''" "c \<noteq> ''Saldo''" "c \<noteq> ''Total''" "\<not> startswith c ''Unnamed''"
  using assms by (auto simp: startswith_def coluna_gasto_temp_def)


lemma period_not_written:
  assumes "startswith c ''Period ''"
  shows "\<not> startswith c ''Unnamed''" "c \<noteq> coluna_gasto_temp" "c \<notin> colunas_derivadas"
  using prefix_not_reserved [OF assms] by (simp_all add: colunas_derivadas_def)

section \<open>The aggregation and the left join\<close>

lemma gastos_agrupados_keys: "map fst (gastos_agrupados gs) = remdups (map gasto_key gs)"
  by (simp add: gastos_agrupados_def comp_def)

lemma gastos_agrupados_distinct: "distinct (map fst (gastos_agrupados gs))"
  by (simp add: gastos_agrupados_keys)

lemma map_of_gastos_agrupados:
  "map_of (gastos_agrupados gs) k =
     (if k \<in> gasto_key ` set gs
      then Some (sum_list (map g_value (filter (\<lambda>g. gasto_key g = k) gs))) else None)"
proof -
  have "map_of (map (\<lambda>k. (k, f k)) ks) k = (if k \<in> set ks then Some (f k) else None)"
    for f :: "int \<times> string \<times> int \<Rightarrow> rat" and ks
    by (induction ks) auto
  then show ?thesis by (simp add: gastos_agrupados_def)
qed

lemma filter_no_key: "k \<notin> f ` set gs \<Longrightarrow> filter (\<lambda>g. f g = k) gs = []"
  by (induction gs) auto

lemma fillna0_gastos_agrupados:
  "fillna0 (map_of (gastos_agrupados gs) (ano, w, p)) = total_gasto gs ano w p"
proof -
  have e: "(\<lambda>g. gasto_key g = (ano, w, p)) = (\<lambda>g. g_fiscal_year g = ano \<and> g_wbs g = w \<and> g_period g = p)"
    by (auto simp: gasto_key_def)
  show ?thesis
  proof (cases "(ano, w, p) \<in> gasto_key ` set gs")
    case True
    then show ?thesis by (simp add: map_of_gastos_agrupados fillna0_def total_gasto_def e)
  next
    case False
    then have "filter (\<lambda>g. gasto_key g = (ano, w, p)) gs = []" by (rule filter_no_key)
    then show ?thesis using False
      by (simp add: map_of_gastos_agrupados fillna0_def total_gasto_def e [symmetric])
  qed
qed

lemma filter_key_distinct:
  "distinct (map fst al) \<Longrightarrow>
   filter (\<lambda>(k, v). k = k0) al = (case map_of al k0 of None \<Rightarrow> [] | Some v \<Rightarrow> [(k0, v)])"
proof (induction al)
  case Nil
  then show ?case by simp
next
  case (Cons a al)
  obtain k v where a: "a = (k, v)" by (cases a)
  show ?case
  proof (cases "k = k0")
    case True
    then have "k0 \<notin> fst ` set al" using Cons.prems a by auto
    then have "filter (\<lambda>(k, v). k = k0) al = []"
      by (induction al) auto
    then show ?thesis using True a by simp
  next
    case False
    then show ?thesis using Cons a by simp
  qed
qed

lemma matches_of_row:
  assumes "distinct (map fst agg)"
  shows "filter (\<lambda>((y, w, q), v). w = wbs_element r \<and> y = fiscal_year r)
           (gastos_do_periodo agg p ano) =
         (case gasto_de agg ano p r of None \<Rightarrow> []
          | Some v \<Rightarrow> [((ano, wbs_element r, p), v)])"
proof (cases "fiscal_year r = ano")
  case True
  have "filter (\<lambda>((y, w, q), v). w = wbs_element r \<and> y = fiscal_year r)
          (gastos_do_periodo agg p ano) = filter (\<lambda>(k, v). k = (ano, wbs_element r, p)) agg"
    unfolding gastos_do_periodo_def filter_filter using True
    by (intro filter_cong) auto
  then show ?thesis using True assms by (simp add: filter_key_distinct gasto_de_def)
next
  case False
  have "filter (\<lambda>((y, w, q), v). w = wbs_element r \<and> y = fiscal_year r)
          (gastos_do_periodo agg p ano) = []"
    unfolding gastos_do_periodo_def filter_filter using False
    by (auto simp: filter_empty_conv)
  then show ?thesis using False by (simp add: gasto_de_def)
qed

text \<open>
  The keys of the aggregation are distinct, so every budget row meets at most one right
  row: the join is a map over the rows.
\<close>

lemma merge_left_unique:
  assumes "distinct (map fst agg)"
  shows "merge_left rs (gastos_do_periodo agg p ano) =
         map (\<lambda>r. set_cell coluna_gasto_temp (gasto_de agg ano p r) r) rs"
proof (induction rs)
  case Nil
  then show ?case by (simp add: merge_left_def)
next
  case (Cons r rs)
  have "merge_left (r # rs) (gastos_do_periodo agg p ano) =
        (case gasto_de agg ano p r of None \<Rightarrow> [set_cell coluna_gasto_temp None r]
         | Some v \<Rightarrow> [set_cell coluna_gasto_temp (Some v) r])
        @ merge_left rs (gastos_do_periodo agg p ano)"
    by (simp add: merge_left_def matches_of_row [OF assms] split: option.split)
  then show ?case using Cons by (simp split: option.split)
qed

lemma gastos_do_periodo_empty:
  "gastos_do_periodo agg p ano = [] \<Longrightarrow> gasto_de agg ano p r = None"
proof -
  assume e: "gastos_do_periodo agg p ano = []"
  have "map_of agg (ano, w, p) = None" for w
  proof (cases "map_of agg (ano, w, p)")
    case (Some v)
    then have "((ano, w, p), v) \<in> set agg" by (rule map_of_SomeD)
    then have "((ano, w, p), v) \<in> set (gastos_do_periodo agg p ano)"
      by (simp add: gastos_do_periodo_def)
    then show ?thesis using e by simp
  qed simp
  then show ?thesis by (simp add: gasto_de_def)
qed

section \<open>One turn of the loop, and the loop\<close>

lemma cell_at_set_cell [simp]:
  "cell_at (set_cell c v r) c' = (if c' = c then Some v else cell_at r c')"
  by (simp add: cell_at_def set_cell_def update_conv')

lemma cell_at_delete [simp]:
  "cell_at (r\<lparr>cells := AList.delete c (cells r)\<rparr>) c' = (if c' = c then None else cell_at r c')"
  by (simp add: cell_at_def delete_conv')

lemma set_cell_keys [simp]:
  "fiscal_year (set_cell c v r) = fiscal_year r" "wbs_element (set_cell c v r) = wbs_element r"
  by (simp_all add: set_cell_def)

lemma cell_value_set_cell [simp]: "cell_value c (set_cell c v r) = v"
  by (simp add: cell_value_def)

lemma list_all2_map_same: "list_all2 P xs (map f xs) \<longleftrightarrow> (\<forall>x \<in> set xs. P x (f x))"
  by (simp add: list_all2_map2 list_all2_same)

lemma linha_atualizada_refl: "linha_atualizada gs ano {} r r"
  by (simp add: linha_atualizada_def)

lemma linha_atualizada_trans:
  "linha_atualizada gs ano W1 r r' \<Longrightarrow> linha_atualizada gs ano W2 r' r'' \<Longrightarrow>
   linha_atualizada gs ano (W1 \<union> W2) r r''"
  by (auto simp: linha_atualizada_def)

lemma atualizar_periodo_absent:
  "period_col p \<notin> set (columns df) \<Longrightarrow> atualizar_periodo agg ano p df = Inr df"
  by (simp add: atualizar_periodo_def)

lemma atualizar_periodo_present:
  assumes "period_col p \<in> set (columns df)"
    and "atualizar_periodo (gastos_agrupados gs) ano p df = Inr df'"
  shows "df' = drop_column coluna_gasto_temp
           (atualizar_linhas ano (period_col p)
             \<lparr>columns = (if coluna_gasto_temp \<in> set (columns df) then columns df
                          else columns df @ [coluna_gasto_temp]),
              rows = map (\<lambda>r. set_cell coluna_gasto_temp
                                 (gasto_de (gastos_agrupados gs) ano p r) r) (rows df)\<rparr>)"
proof (cases "gastos_do_periodo (gastos_agrupados gs) p ano = []")
  case True
  then have "gasto_de (gastos_agrupados gs) ano p r = None" for r
    by (rule gastos_do_periodo_empty)
  then show ?thesis using assms True
    by (simp add: atualizar_periodo_def assign_column_def)
next
  case False
  then have n: "coluna_gasto_temp \<notin> set (columns df)"
    using assms by (auto simp: atualizar_periodo_def split: if_splits)
  show ?thesis using assms False n
    by (simp add: atualizar_periodo_def merge_left_unique [OF gastos_agrupados_distinct])
qed

lemma atualizar_periodo_rows:
  assumes "atualizar_periodo (gastos_agrupados gs) ano p df = Inr df'"
  shows "list_all2 (linha_atualizada gs ano ({period_col p} \<inter> set (columns df)))
           (rows df) (rows df')"
proof (cases "period_col p \<in> set (columns df)")
  case False
  then have "df' = df" using assms by (simp add: atualizar_periodo_absent)
  then show ?thesis using False
    by (simp add: list_all2_same linha_atualizada_refl)
next
  case True
  have t: "period_col p \<noteq> coluna_gasto_temp"
    using prefix_not_reserved(1) [OF period_col_prefix] .
  have W: "{period_col p} \<inter> set (columns df) = {period_col p}" using True by auto
  show ?thesis
    unfolding atualizar_periodo_present [OF True assms] W
    by (simp add: drop_column_def atualizar_linhas_def list_all2_map_same
        linha_atualizada_def gasto_de_def fillna0_gastos_agrupados period_of_period_col t o_def)
qed

lemma atualizar_periodo_columns:
  assumes "atualizar_periodo agg ano p df = Inr df'" and "c \<noteq> coluna_gasto_temp"
  shows "c \<in> set (columns df') \<longleftrightarrow> c \<in> set (columns df)"
  using assms
  by (auto simp: atualizar_periodo_def Let_def drop_column_def atualizar_linhas_def
      assign_column_def split: if_splits)

lemma atualizar_gastos_columns:
  "atualizar_gastos agg ano ps df = Inr df' \<Longrightarrow> c \<noteq> coluna_gasto_temp \<Longrightarrow>
   c \<in> set (columns df') \<longleftrightarrow> c \<in> set (columns df)"
proof (induction ps arbitrary: df)
  case Nil
  then show ?case by simp
next
  case (Cons p ps)
  then obtain df1 where s: "atualizar_periodo agg ano p df = Inr df1"
    and l: "atualizar_gastos agg ano ps df1 = Inr df'"
    by (auto split: sum.splits)
  show ?case
    using Cons.IH [OF l Cons.prems(2)] atualizar_periodo_columns [OF s Cons.prems(2)] by simp
qed

lemma atualizar_gastos_rows:
  "atualizar_gastos (gastos_agrupados gs) ano ps df = Inr df' \<Longrightarrow>
   list_all2 (linha_atualizada gs ano (period_col ` set ps \<inter> set (columns df)))
     (rows df) (rows df')"
proof (induction ps arbitrary: df)
  case Nil
  then show ?case by (simp add: list_all2_same linha_atualizada_refl)
next
  case (Cons p ps)
  then obtain df1 where s: "atualizar_periodo (gastos_agrupados gs) ano p df = Inr df1"
    and l: "atualizar_gastos (gastos_agrupados gs) ano ps df1 = Inr df'"
    by (auto split: sum.splits)
  have "period_col q \<in> set (columns df1) \<longleftrightarrow> period_col q \<in> set (columns df)" for q
    using atualizar_periodo_columns [OF s] prefix_not_reserved(1) [OF period_col_prefix] by blast
  then have W: "period_col ` set (p # ps) \<inter> set (columns df) =
      ({period_col p} \<inter> set (columns df)) \<union> (period_col ` set ps \<inter> set (columns df1))"
    by auto
  have "list_all2 (linha_atualizada gs ano
           (({period_col p} \<inter> set (columns df)) \<union> (period_col ` set ps \<inter> set (columns df1))))
         (rows df) (rows df')"
    using atualizar_periodo_rows [OF s] Cons.IH [OF l]
    by (rule list_all2_trans [rotated]) (rule linha_atualizada_trans)
  then show ?case unfolding W .
qed


lemma atualizar_periodo_ok:
  assumes "coluna_gasto_temp \<notin> set (columns df)"
  shows "\<exists>df'. atualizar_periodo agg ano p df = Inr df' \<and> coluna_gasto_temp \<notin> set (columns df')"
  using assms
  by (auto simp: atualizar_periodo_def Let_def drop_column_def atualizar_linhas_def
      assign_column_def)

lemma atualizar_gastos_ok:
  "coluna_gasto_temp \<notin> set (columns df) \<Longrightarrow> \<exists>df'. atualizar_gastos agg ano ps df = Inr df'"
proof (induction ps arbitrary: df)
  case Nil
  then show ?case by simp
next
  case (Cons p ps)
  obtain df1 where "atualizar_periodo agg ano p df = Inr df1" "coluna_gasto_temp \<notin> set (columns df1)"
    using atualizar_periodo_ok [OF Cons.prems] by blast
  then show ?case using Cons.IH [of df1] by simp
qed

section \<open>Sorting the period columns\<close>

lemma str_le_total: "str_le a b \<or> str_le b a"
  by (induction a b rule: str_le.induct) auto

lemma str_le_trans: "str_le a b \<Longrightarrow> str_le b c \<Longrightarrow> str_le a c"
proof (induction a b arbitrary: c rule: str_le.induct)
  case (1 ys)
  then show ?case by simp
next
  case (2 x xs)
  then show ?case by simp
next
  case (3 x xs y ys)
  then show ?case by (cases c) (auto split: if_splits)
qed

lemma mset_insert_str: "mset (insert_str s ts) = add_mset s (mset ts)"
  by (induction ts) simp_all

lemma set_insert_str: "set (insert_str s ts) = insert s (set ts)"
  by (induction ts) auto

lemma sorted_insert_str: "sorted_wrt str_le ts \<Longrightarrow> sorted_wrt str_le (insert_str s ts)"
proof (induction ts)
  case Nil
  then show ?case by simp
next
  case (Cons t ts)
  show ?case
  proof (cases "str_le s t")
    case True
    then have "\<forall>y \<in> set ts. str_le s y" using Cons.prems by (auto intro: str_le_trans)
    then show ?thesis using True Cons.prems by simp
  next
    case False
    then have "str_le t s" using str_le_total by blast
    then show ?thesis using False Cons by (simp add: set_insert_str)
  qed
qed

lemma mset_sorted_py: "mset (sorted_py xs) = mset xs"
  by (induction xs) (simp_all add: sorted_py_def mset_insert_str)

lemma sorted_sorted_py: "sorted_wrt str_le (sorted_py xs)"
  by (induction xs) (simp_all add: sorted_py_def sorted_insert_str)

lemma colunas_periodo_Nil_iff:
  "colunas_periodo df = [] \<longleftrightarrow> (\<forall>c \<in> set (columns df). \<not> match_period c)"
proof -
  have "colunas_periodo df = [] \<longleftrightarrow> mset (colunas_periodo df) = {#}" by simp
  also have "\<dots> \<longleftrightarrow> mset (filter match_period (columns df)) = {#}"
    unfolding colunas_periodo_def mset_sorted_py ..
  also have "\<dots> \<longleftrightarrow> (\<forall>c \<in> set (columns df). \<not> match_period c)"
    by (auto simp: filter_empty_conv)
  finally show ?thesis .
qed

section \<open>Totals, balance and masking\<close>

lemma max_ano_por_wbs_keys:
  assumes "map linha_key rs' = map linha_key rs" and "linha_key r' = linha_key r"
  shows "max_ano_por_wbs rs' r' = max_ano_por_wbs rs r"
proof -
  have "map fiscal_year (filter (\<lambda>x. wbs_element x = w) xs) =
        map snd (filter (\<lambda>k. fst k = w) (map linha_key xs))" for xs w
    by (induction xs) (auto simp: linha_key_def)
  then show ?thesis using assms by (simp add: max_ano_por_wbs_def linha_key_def)
qed

lemma fold_max_ge: "(a::int) \<le> fold max xs a"
  by (induction xs arbitrary: a) (auto intro: order_trans [OF max.cobounded2])

lemma fold_max_mem: "x \<in> set xs \<Longrightarrow> (x::int) \<le> fold max xs a"
proof (induction xs arbitrary: a)
  case Nil
  then show ?case by simp
next
  case (Cons y ys)
  show ?case
  proof (cases "x = y")
    case True
    have "x \<le> max y a" using True by simp
    also have "\<dots> \<le> fold max ys (max y a)" by (rule fold_max_ge)
    finally show ?thesis by simp
  next
    case False
    then show ?thesis using Cons by simp
  qed
qed

lemma fold_max_in: "fold max xs (a::int) = a \<or> fold max xs a \<in> set xs"
proof (induction xs arbitrary: a)
  case Nil
  then show ?case by simp
next
  case (Cons y ys)
  show ?case using Cons [of "max y a"] by (auto simp: max_def split: if_splits)
qed

lemma below_max_ano_iff:
  "fiscal_year r < max_ano_por_wbs rs r \<longleftrightarrow>
   (\<exists>x \<in> set rs. wbs_element x = wbs_element r \<and> fiscal_year r < fiscal_year x)"
proof
  assume l: "fiscal_year r < max_ano_por_wbs rs r"
  let ?ys = "map fiscal_year (filter (\<lambda>x. wbs_element x = wbs_element r) rs)"
  have "fold max ?ys (fiscal_year r) \<in> set ?ys"
    using fold_max_in [of ?ys "fiscal_year r"] l by (auto simp: max_ano_por_wbs_def)
  then show "\<exists>x \<in> set rs. wbs_element x = wbs_element r \<and> fiscal_year r < fiscal_year x"
    using l by (auto simp: max_ano_por_wbs_def)
next
  assume "\<exists>x \<in> set rs. wbs_element x = wbs_element r \<and> fiscal_year r < fiscal_year x"
  then obtain x where x: "x \<in> set rs" "wbs_element x = wbs_element r"
    "fiscal_year r < fiscal_year x" by blast
  then have "fiscal_year x \<in> set (map fiscal_year (filter (\<lambda>x. wbs_element x = wbs_element r) rs))"
    by auto
  then have "fiscal_year x \<le> max_ano_por_wbs rs r"
    unfolding max_ano_por_wbs_def by (rule fold_max_mem)
  then show "fiscal_year r < max_ano_por_wbs rs r" using x(3) by simp
qed

lemma num_at_set_cell [simp]:
  "num_at c (set_cell c' v r) = (if c = c' then fillna0 v else num_at c r)"
  by (simp add: num_at_def cell_value_def)

lemma rows_assign_column [simp]:
  "rows (assign_column c f df) = map (\<lambda>r. set_cell c (f r) r) (rows df)"
  by (simp add: assign_column_def)

lemma columns_assign_column [simp]:
  "set (columns (assign_column c f df)) = insert c (set (columns df))"
  by (auto simp: assign_column_def)

lemma calcular_totais_cases:
  "calcular_totais df =
     (if colunas_periodo df = [] then Inr (Warning df)
      else if ''Total'' \<notin> set (columns df) then Inl (MissingColumnError ''Total'')
      else Inr (Success (drop_column ''OrcamentoRealPorLinha'' (mascarar
        (assign_column ''Saldo''
           (\<lambda>r. sub_cell (cell_value ''Total Orcado'' r) (cell_value ''Total Acumulado'' r))
        (assign_column ''Total Orcado''
           (\<lambda>r. Some (group_sum ''Total'' (rows df) (wbs_element r)))
        (assign_column ''Total Acumulado''
           (\<lambda>r. Some (sum_list (map (row_sum (colunas_periodo df))
                         (filter (\<lambda>x. wbs_element x = wbs_element r) (rows df)))))
        (assign_column ''OrcamentoRealPorLinha''
           (\<lambda>r. Some (row_sum (colunas_periodo df) r)) df))))))))"
  by (simp add: calcular_totais_def Let_def group_sum_def filter_map o_def fillna0_def)

lemma rows_drop_column [simp]:
  "rows (drop_column c df) = map (\<lambda>r. r\<lparr>cells := AList.delete c (cells r)\<rparr>) (rows df)"
  by (simp add: drop_column_def)

lemma columns_drop_column [simp]: "set (columns (drop_column c df)) = set (columns df) - {c}"
  by (auto simp: drop_column_def)

lemma rows_mascarar:
  "rows (mascarar df) =
     map (\<lambda>r. if fiscal_year r < max_ano_por_wbs (rows df) r
               then set_cell ''Saldo'' None
                      (set_cell ''Total Acumulado'' None (set_cell ''Total Orcado'' None r))
               else r) (rows df)"
  by (simp add: mascarar_def)

lemma columns_mascarar [simp]: "columns (mascarar df) = columns df"
  by (simp add: mascarar_def)

lemma linha_key_set_cell [simp]: "linha_key (set_cell c v r) = linha_key r"
  by (simp add: linha_key_def)

lemma cell_value_set_cell_other [simp]:
  "c \<noteq> c' \<Longrightarrow> cell_value c (set_cell c' v r) = cell_value c r"
  by (simp add: cell_value_def)

lemma calcular_totais_rows:
  assumes "calcular_totais df = Inr (Success out)"
  shows "list_all2 (linha_totais (colunas_periodo df) (rows df)) (rows df) (rows out)"
proof -
  define f where "f = (\<lambda>r.
     set_cell ''Saldo'' (Some (group_sum ''Total'' (rows df) (wbs_element r) -
          sum_list (map (row_sum (colunas_periodo df))
            (filter (\<lambda>x. wbs_element x = wbs_element r) (rows df)))))
      (set_cell ''Total Orcado'' (Some (group_sum ''Total'' (rows df) (wbs_element r)))
        (set_cell ''Total Acumulado''
           (Some (sum_list (map (row_sum (colunas_periodo df))
              (filter (\<lambda>x. wbs_element x = wbs_element r) (rows df)))))
          (set_cell ''OrcamentoRealPorLinha'' (Some (row_sum (colunas_periodo df) r)) r))))"
  define df4 where "df4 = assign_column ''Saldo''
           (\<lambda>r. sub_cell (cell_value ''Total Orcado'' r) (cell_value ''Total Acumulado'' r))
        (assign_column ''Total Orcado''
           (\<lambda>r. Some (group_sum ''Total'' (rows df) (wbs_element r)))
        (assign_column ''Total Acumulado''
           (\<lambda>r. Some (sum_list (map (row_sum (colunas_periodo df))
                         (filter (\<lambda>x. wbs_element x = wbs_element r) (rows df)))))
        (assign_column ''OrcamentoRealPorLinha''
           (\<lambda>r. Some (row_sum (colunas_periodo df) r)) df)))"
  have out: "out = drop_column ''OrcamentoRealPorLinha'' (mascarar df4)"
    using assms unfolding calcular_totais_cases df4_def by (simp split: if_splits)
  have r4: "rows df4 = map f (rows df)"
    by (simp add: df4_def f_def o_def sub_cell_def)
  have k: "linha_key (f r) = linha_key r" for r by (simp add: f_def)
  have m: "max_ano_por_wbs (map f (rows df)) (f r) = max_ano_por_wbs (rows df) r" for r
    by (rule max_ano_por_wbs_keys) (simp_all add: k o_def)
  have fy: "fiscal_year (f r) = fiscal_year r" for r by (simp add: f_def)
  have rs: "rows out = map (\<lambda>r. (if fiscal_year r < max_ano_por_wbs (rows df) r
               then set_cell ''Saldo'' None
                      (set_cell ''Total Acumulado'' None (set_cell ''Total Orcado'' None (f r)))
               else f r)\<lparr>cells := AList.delete ''OrcamentoRealPorLinha''
                  (cells (if fiscal_year r < max_ano_por_wbs (rows df) r
               then set_cell ''Saldo'' None
                      (set_cell ''Total Acumulado'' None (set_cell ''Total Orcado'' None (f r)))
               else f r))\<rparr>) (rows df)"
    by (simp add: out rows_mascarar r4 o_def m fy)
  show ?thesis
    unfolding rs list_all2_map_same
    by (simp add: linha_totais_def f_def colunas_derivadas_def)
qed

lemma calcular_totais_warning: "calcular_totais df = Inr (Warning df') \<Longrightarrow> df' = df"
  unfolding calcular_totais_cases by (simp split: if_splits)

lemma calcular_totais_any_rows:
  assumes "calcular_totais df = Inr out"
  shows "list_all2 (\<lambda>r r'. fiscal_year r' = fiscal_year r \<and> wbs_element r' = wbs_element r \<and>
            (\<forall>c. c \<notin> colunas_derivadas \<longrightarrow> cell_at r' c = cell_at r c))
          (rows df) (rows (tabela out))"
proof (cases out)
  case (Success t)
  then have "list_all2 (linha_totais (colunas_periodo df) (rows df)) (rows df) (rows t)"
    using assms by (simp add: calcular_totais_rows)
  then show ?thesis using Success
    by (auto elim!: list_all2_mono simp: linha_totais_def)
next
  case (Warning t)
  then have "t = df" using assms by (simp add: calcular_totais_warning)
  then show ?thesis using Warning by (simp add: list_all2_same)
qed

section \<open>The whole function, row by row\<close>

lemma rows_drop_unnamed:
  "list_all2 (\<lambda>r r'. fiscal_year r' = fiscal_year r \<and> wbs_element r' = wbs_element r \<and>
       (\<forall>c. cell_at r' c = (if startswith c ''Unnamed'' then None else cell_at r c)))
     (rows df) (rows (drop_unnamed df))"
proof -
  have "map_of (filter (\<lambda>(c, v). \<not> P c) al) c = (if P c then None else map_of al c)"
    for P and al :: "(string \<times> cell) list" and c
    by (induction al) auto
  then show ?thesis
    by (simp add: drop_unnamed_def list_all2_map_same cell_at_def)
qed

lemma columns_drop_unnamed:
  "c \<in> set (columns (drop_unnamed df)) \<longleftrightarrow> c \<in> set (columns df) \<and> \<not> startswith c ''Unnamed''"
  by (auto simp: drop_unnamed_def)

lemma period_cols_drop_unnamed:
  "period_col ` S \<inter> set (columns (drop_unnamed b)) = period_col ` S \<inter> set (columns b)"
  using prefix_not_reserved(7) [OF period_col_prefix] by (auto simp: columns_drop_unnamed)

lemma processar_split:
  assumes "processar_dados_streamlit b gs ano a z = Inr out"
  obtains df where
    "atualizar_gastos (gastos_agrupados gs) ano [a..z] (drop_unnamed b) = Inr df"
    "calcular_totais df = Inr out"
  using assms by (auto simp: processar_dados_streamlit_def Let_def split: sum.splits)

lemma processar_rows_stripped:
  assumes "processar_dados_streamlit b gs ano a z = Inr out"
  shows "list_all2 (\<lambda>r r'. fiscal_year r' = fiscal_year r \<and> wbs_element r' = wbs_element r \<and>
       (\<forall>c. c \<noteq> coluna_gasto_temp \<longrightarrow> c \<notin> colunas_derivadas \<longrightarrow>
          cell_at r' c =
            (if fiscal_year r = ano \<and> c \<in> period_col ` {a..z} \<inter> set (columns b)
             then Some (Some (round0 (total_gasto gs ano (wbs_element r) (period_of c))))
             else cell_at r c))) (rows (drop_unnamed b)) (rows (tabela out))"
proof -
  obtain df where l: "atualizar_gastos (gastos_agrupados gs) ano [a..z] (drop_unnamed b) = Inr df"
    and t: "calcular_totais df = Inr out"
    using assms by (rule processar_split)
  have 2: "list_all2 (linha_atualizada gs ano (period_col ` {a..z} \<inter> set (columns b)))
      (rows (drop_unnamed b)) (rows df)"
    using atualizar_gastos_rows [OF l] by (simp add: period_cols_drop_unnamed)
  show ?thesis
    using 2 calcular_totais_any_rows [OF t]
    by (rule list_all2_trans [rotated]) (simp add: linha_atualizada_def)
qed

lemma processar_rows:
  assumes "processar_dados_streamlit b gs ano a z = Inr out"
  shows "list_all2 (linha_saida gs ano (period_col ` {a..z} \<inter> set (columns b)))
           (rows b) (rows (tabela out))"
proof -
  obtain df where l: "atualizar_gastos (gastos_agrupados gs) ano [a..z] (drop_unnamed b) = Inr df"
    and t: "calcular_totais df = Inr out"
    using assms by (rule processar_split)
  let ?W = "period_col ` {a..z} \<inter> set (columns b)"
  have 2: "list_all2 (linha_atualizada gs ano ?W) (rows (drop_unnamed b)) (rows df)"
    using atualizar_gastos_rows [OF l] by (simp add: period_cols_drop_unnamed)
  have W: "c \<in> ?W \<Longrightarrow> \<not> startswith c ''Unnamed''" for c
    using prefix_not_reserved(7) [OF period_col_prefix] by auto
  have 12: "list_all2 (\<lambda>r r'. fiscal_year r' = fiscal_year r \<and> wbs_element r' = wbs_element r \<and>
       (\<forall>c. \<not> startswith c ''Unnamed'' \<longrightarrow> c \<noteq> coluna_gasto_temp \<longrightarrow>
          cell_at r' c =
            (if fiscal_year r = ano \<and> c \<in> ?W
             then Some (Some (round0 (total_gasto gs ano (wbs_element r) (period_of c))))
             else cell_at r c))) (rows b) (rows df)"
    using rows_drop_unnamed [of b] 2
    by (rule list_all2_trans [rotated]) (simp add: linha_atualizada_def)
  show ?thesis
    using 12 calcular_totais_any_rows [OF t]
    by (rule list_all2_trans [rotated]) (simp add: linha_saida_def)
qed

lemma processar_row:
  assumes "processar_dados_streamlit b gs ano a z = Inr out" and "i < length (rows b)"
  shows "i < length (rows (tabela out))"
    and "linha_saida gs ano (period_col ` {a..z} \<inter> set (columns b))
           (rows b ! i) (rows (tabela out) ! i)"
  using processar_rows [OF assms(1)] assms(2)
  by (simp_all add: list_all2_conv_all_nth)

lemma totals_of_success:
  assumes "processar_dados_streamlit b gs ano a z = Inr (Success t)" and "r \<in> set (rows t)"
  shows "if \<exists>x \<in> set (rows t). wbs_element x = wbs_element r \<and> fiscal_year r < fiscal_year x
         then cell_at r ''Total Orcado'' = Some None \<and>
              cell_at r ''Total Acumulado'' = Some None \<and>
              cell_at r ''Saldo'' = Some None
         else \<exists>x y. cell_at r ''Total Orcado'' = Some (Some x) \<and>
              cell_at r ''Total Acumulado'' = Some (Some y) \<and>
              cell_at r ''Saldo'' = Some (Some (x - y))"
proof -
  obtain df where t: "calcular_totais df = Inr (Success t)"
    using assms(1) by (rule processar_split)
  note R = calcular_totais_rows [OF t]
  have len: "length (rows t) = length (rows df)" using R by (simp add: list_all2_lengthD)
  obtain i where i: "i < length (rows t)" "r = rows t ! i"
    using assms(2) by (auto simp: in_set_conv_nth)
  define r0 where "r0 = rows df ! i"
  have lt: "linha_totais (colunas_periodo df) (rows df) r0 r"
    using R i len by (simp add: list_all2_conv_all_nth r0_def)
  have k: "linha_key (rows t ! j) = linha_key (rows df ! j)" if "j < length (rows t)" for j
    using R that len by (simp add: list_all2_conv_all_nth linha_totais_def linha_key_def)
  then have "map linha_key (rows t) = map linha_key (rows df)"
    using len by (simp add: list_eq_iff_nth_eq)
  then have s: "linha_key ` set (rows t) = linha_key ` set (rows df)"
    by (metis set_map)
  have r: "linha_key r = linha_key r0" using k i by (simp add: r0_def)
  have K: "(\<exists>x \<in> set rs. wbs_element x = wbs_element q \<and> fiscal_year q < fiscal_year x) \<longleftrightarrow>
        (\<exists>k \<in> linha_key ` set rs. fst k = fst (linha_key q) \<and> snd (linha_key q) < snd k)" for rs q
    by (auto simp: linha_key_def)
  have "(\<exists>x \<in> set (rows t). wbs_element x = wbs_element r \<and> fiscal_year r < fiscal_year x) \<longleftrightarrow>
      (\<exists>x \<in> set (rows df). wbs_element x = wbs_element r0 \<and> fiscal_year r0 < fiscal_year x)"
    unfolding K s r ..
  then have "(\<exists>x \<in> set (rows t). wbs_element x = wbs_element r \<and> fiscal_year r < fiscal_year x) \<longleftrightarrow>
      fiscal_year r0 < max_ano_por_wbs (rows df) r0"
    by (simp add: below_max_ano_iff)
  then show ?thesis using lt by (auto simp: linha_totais_def)
qed


section \<open>The example inputs, evaluated\<close>

lemma period_col_1_3:
  "period_col 1 = ''Period 1''" "period_col 2 = ''Period 2''" "period_col 3 = ''Period 3''"
  by code_simp+

lemma cenario_agrupado: "gastos_agrupados gastos_c7 = [((2026, ''P1'', 1), 75)]"
  by (simp add: gastos_agrupados_def gastos_c7_def gasto_key_def)

lemma cenario_atualizado: "atualizar_gastos [((2026, ''P1'', 1), 75)] 2026 [1..3] (drop_unnamed (orcamento_c7 a1 a2 a3 b1 b2 b3))
   = Inr (orcamento_c7 a1 a2 a3 (Some 75) (Some 0) (Some 0))"
  by (simp add: upto.simps period_col_1_3 atualizar_periodo_def gastos_do_periodo_def
      coluna_gasto_temp_def drop_unnamed_def orcamento_c7_def startswith_def merge_left_def
      assign_column_def atualizar_linhas_def drop_column_def set_cell_def cell_value_def cell_at_def
      fillna0_def round0_def Let_def)

lemma cenario_totais: "calcular_totais (orcamento_c7 a1 a2 a3 (Some 75) (Some 0) (Some 0)) = Inr (Success (saida_c7 a1 a2 a3))"
  by (simp add: calcular_totais_def colunas_periodo_def orcamento_c7_def match_period_def
      startswith_def is_digit_def sorted_py_def Let_def assign_column_def row_sum_def num_at_def
      cell_value_def cell_at_def set_cell_def fillna0_def group_sum_def sub_cell_def mascarar_def
      max_ano_por_wbs_def drop_column_def saida_c7_def)

lemma exemplo_eval:
  "processar_dados_streamlit orcamento_ex gastos_c7 2026 1 3 = Inr (Success saida_ex)"
  by code_simp

lemma exemplo_dup_eval:
  "processar_dados_streamlit orcamento_dup gastos_c7 2026 1 3 = Inr (Success saida_dup)"
  by code_simp

section \<open>The properties\<close>

subsection \<open>Aggregation and zero fill\<close>



subsection \<open>A missing Total column\<close>

text \<open>
  Claim C2, as amended. The function looks for period columns before it looks for \<open>Total\<close>.
  When the budget, placeholder columns removed, has no column \<open>Total\<close>, has at least one
  column matching \<open>Period <digits>\<close>, and has no column with the name of the temporary
  merge column, the function returns the missing-column error naming \<open>Total\<close>, and no table.

  The claim as first stated, for every budget with no \<open>Total\<close>, fails on a budget with no
  period column: the function returns that budget with a warning.
\<close>

theorem C2_missing_total_after_period_check:
  assumes "''Total'' \<notin> set (columns (drop_unnamed df_orcamento))"
    and "\<exists>c \<in> set (columns (drop_unnamed df_orcamento)). match_period c"
    and "coluna_gasto_temp \<notin> set (columns df_orcamento)"
  shows "processar_dados_streamlit df_orcamento df_gastos ano periodo_inicial periodo_final =
           Inl (MissingColumnError ''Total'')"
proof -
  let ?b = "drop_unnamed df_orcamento"
  have "coluna_gasto_temp \<notin> set (columns ?b)" using assms(3) by (simp add: columns_drop_unnamed)
  then obtain df where l: "atualizar_gastos (gastos_agrupados df_gastos) ano
      [periodo_inicial..periodo_final] ?b = Inr df"
    using atualizar_gastos_ok by blast
  obtain c where c: "c \<in> set (columns ?b)" "match_period c" using assms(2) by blast
  have "c \<noteq> coluna_gasto_temp"
    using prefix_not_reserved(1) [OF match_period_prefix [OF c(2)]] .
  then have "c \<in> set (columns df)" using atualizar_gastos_columns [OF l] c(1) by simp
  then have p: "colunas_periodo df \<noteq> []" using c(2) by (auto simp: colunas_periodo_Nil_iff)
  have "''Total'' \<noteq> coluna_gasto_temp" by (simp add: coluna_gasto_temp_def)
  then have "''Total'' \<notin> set (columns df)" using atualizar_gastos_columns [OF l] assms(1) by simp
  then have "calcular_totais df = Inl (MissingColumnError ''Total'')"
    using p unfolding calcular_totais_cases by simp
  then show ?thesis using l by (simp add: processar_dados_streamlit_def)
qed

theorem C2_missing_total_witness:
  "''Total'' \<notin> set (columns (drop_unnamed orcamento_sem_total)) \<and>
   ''Period 1'' \<in> set (columns (drop_unnamed orcamento_sem_total)) \<and>
   match_period ''Period 1'' \<and>
   coluna_gasto_temp \<notin> set (columns orcamento_sem_total) \<and>
   processar_dados_streamlit orcamento_sem_total gastos_c7 2026 1 3 =
     Inl (MissingColumnError ''Total'')"
proof -
  have t: "''Total'' \<notin> set (columns (drop_unnamed orcamento_sem_total))" by code_simp
  have c: "''Period 1'' \<in> set (columns (drop_unnamed orcamento_sem_total))" by code_simp
  have m: "match_period ''Period 1''" by code_simp
  have g: "coluna_gasto_temp \<notin> set (columns orcamento_sem_total)" by code_simp
  have "\<exists>c \<in> set (columns (drop_unnamed orcamento_sem_total)). match_period c"
    using c m by blast
  from C2_missing_total_after_period_check [OF t this g] show ?thesis using t c m g by simp
qed

theorem C2_counterexample:
  "''Total'' \<notin> set (columns (drop_unnamed orcamento_sem_periodo)) \<and>
   processar_dados_streamlit orcamento_sem_periodo gastos_c7 2026 1 3 =
     Inr (Warning (drop_unnamed orcamento_sem_periodo))"
  by code_simp

subsection \<open>Masking\<close>

text \<open>
  Claim C3. In a table returned with success, a row whose fiscal year is the greatest among
  the rows of its project code has numbers in \<open>Total Orcado\<close>, \<open>Total Acumulado\<close> and
  \<open>Saldo\<close>; every other row has a null in all three.
\<close>

theorem C3_masking:
  assumes "processar_dados_streamlit df_orcamento df_gastos ano periodo_inicial periodo_final =
             Inr (Success t)"
    and "r \<in> set (rows t)"
  shows "((\<forall>x \<in> set (rows t). wbs_element x = wbs_element r \<longrightarrow> fiscal_year x \<le> fiscal_year r) \<longrightarrow>
            (\<exists>x y s. cell_at r ''Total Orcado'' = Some (Some x) \<and>
                      cell_at r ''Total Acumulado'' = Some (Some y) \<and>
                      cell_at r ''Saldo'' = Some (Some s))) \<and>
         (\<not> (\<forall>x \<in> set (rows t). wbs_element x = wbs_element r \<longrightarrow> fiscal_year x \<le> fiscal_year r) \<longrightarrow>
            cell_at r ''Total Orcado'' = Some None \<and>
            cell_at r ''Total Acumulado'' = Some None \<and>
            cell_at r ''Saldo'' = Some None)"
proof -
  have e: "(\<forall>x \<in> set (rows t). wbs_element x = wbs_element r \<longrightarrow> fiscal_year x \<le> fiscal_year r) \<longleftrightarrow>
        \<not> (\<exists>x \<in> set (rows t). wbs_element x = wbs_element r \<and> fiscal_year r < fiscal_year x)"
    by auto
  show ?thesis using totals_of_success [OF assms] unfolding e by (auto split: if_splits)
qed

theorem C3_masking_witness:
  "processar_dados_streamlit orcamento_ex gastos_c7 2026 1 3 = Inr (Success saida_ex) \<and>
   rows saida_ex ! 0 \<in> set (rows saida_ex) \<and> rows saida_ex ! 1 \<in> set (rows saida_ex) \<and>
   wbs_element (rows saida_ex ! 1) = wbs_element (rows saida_ex ! 0) \<and>
   fiscal_year (rows saida_ex ! 0) < fiscal_year (rows saida_ex ! 1) \<and>
   cell_at (rows saida_ex ! 0) ''Total Orcado'' = Some None \<and>
   cell_at (rows saida_ex ! 0) ''Total Acumulado'' = Some None \<and>
   cell_at (rows saida_ex ! 0) ''Saldo'' = Some None"
proof -
  have m0: "rows saida_ex ! 0 \<in> set (rows saida_ex)" by code_simp
  have m1: "rows saida_ex ! 1 \<in> set (rows saida_ex)" by code_simp
  have w: "wbs_element (rows saida_ex ! 1) = wbs_element (rows saida_ex ! 0)" by code_simp
  have y: "fiscal_year (rows saida_ex ! 0) < fiscal_year (rows saida_ex ! 1)" by code_simp
  have "\<not> (\<forall>x \<in> set (rows saida_ex). wbs_element x = wbs_element (rows saida_ex ! 0) \<longrightarrow>
            fiscal_year x \<le> fiscal_year (rows saida_ex ! 0))"
    using m1 w y by force
  then show ?thesis
    using C3_masking [OF exemplo_eval m0] exemplo_eval m0 m1 w y by blast
qed

subsection \<open>The balance identity\<close>



subsection \<open>No period column\<close>




subsection \<open>Rows of other fiscal years\<close>

text \<open>
  Claim C6. Whenever the function returns a table, a budget row of a fiscal year other than
  the target year has, in every period column (a name matching \<open>Period <digits>\<close>, or the
  name \<open>Period p\<close> of any integer \<open>p\<close>), the cell it had in the input.
\<close>

theorem C6_other_years_untouched:
  assumes "processar_dados_streamlit df_orcamento df_gastos ano periodo_inicial periodo_final = Inr out"
    and "i < length (rows df_orcamento)"
    and "fiscal_year (rows df_orcamento ! i) \<noteq> ano"
    and "match_period c \<or> c = period_col p"
  shows "i < length (rows (tabela out)) \<and>
         cell_at (rows (tabela out) ! i) c = cell_at (rows df_orcamento ! i) c"
proof -
  have "startswith c ''Period ''"
    using assms(4) match_period_prefix period_col_prefix by blast
  then show ?thesis
    using processar_row [OF assms(1,2)] period_not_written [of c] assms(3)
    by (simp add: linha_saida_def)
qed

theorem C6_other_years_witness:
  "processar_dados_streamlit orcamento_ex gastos_c7 2026 1 3 = Inr (Success saida_ex) \<and>
   0 < length (rows orcamento_ex) \<and> fiscal_year (rows orcamento_ex ! 0) \<noteq> 2026 \<and>
   match_period ''Period 1'' \<and>
   cell_at (rows saida_ex ! 0) ''Period 1'' = cell_at (rows orcamento_ex ! 0) ''Period 1'' \<and>
   cell_at (rows orcamento_ex ! 0) ''Period 1'' = Some (Some 10)"
proof -
  have i: "0 < length (rows orcamento_ex)" by code_simp
  have y: "fiscal_year (rows orcamento_ex ! 0) \<noteq> 2026" by code_simp
  have m: "match_period ''Period 1''" by code_simp
  have v: "cell_at (rows orcamento_ex ! 0) ''Period 1'' = Some (Some 10)" by code_simp
  have "match_period ''Period 1'' \<or> ''Period 1'' = period_col 1" using m by simp
  from C6_other_years_untouched [OF exemplo_eval i y this] show ?thesis
    using exemplo_eval i y m v by simp
qed

subsection \<open>The scenario of the specification\<close>

text \<open>
  Claim C7, as amended. On the scenario budget, whatever its period cells, with the two
  expenditures and the call for 2026, periods 1 to 3, the function returns with success the
  table \<open>saida_c7\<close>: the 2026 row has 75, 0 and 0 in its period columns, the period cells of
  the 2025 row are unchanged, the 2026 row has \<open>Total Orcado\<close> 600, \<open>Total Acumulado\<close> equal
  to the sum of the period columns of both rows of the project (75 plus the period cells of
  the 2025 row, nulls counting as 0), and \<open>Saldo\<close> their difference; the three derived
  cells of the 2025 row are null.

  The claim as first stated takes \<open>Total Acumulado\<close> to be the sum of the 2026 row's own
  period columns. With 10, 20 and 30 in the 2025 row that sum is 75 and the cell is 135.
\<close>

theorem C7_scenario:
  "processar_dados_streamlit (orcamento_c7 a1 a2 a3 b1 b2 b3) gastos_c7 2026 1 3 =
     Inr (Success (saida_c7 a1 a2 a3))"
  by (simp add: processar_dados_streamlit_def cenario_agrupado cenario_atualizado cenario_totais)

theorem C7_scenario_witness:
  "processar_dados_streamlit (orcamento_c7 (Some 10) (Some 20) (Some 30) (Some 1) (Some 2) (Some 3))
     gastos_c7 2026 1 3 = Inr (Success (saida_c7 (Some 10) (Some 20) (Some 30)))"
  by (rule C7_scenario)

theorem C7_counterexample:
  "processar_dados_streamlit orcamento_ex gastos_c7 2026 1 3 = Inr (Success saida_ex) \<and>
   cell_at (rows saida_ex ! 1) ''Total Acumulado'' = Some (Some 135) \<and>
   row_sum [''Period 1'', ''Period 2'', ''Period 3''] (rows saida_ex ! 1) = 75"
  by code_simp

subsection \<open>The order of the period columns\<close>

text \<open>
  Claim C8, as amended. The list of period columns found in stage 2 holds exactly the
  column names matching \<open>Period <digits>\<close>, in ascending order of the strings compared code
  point by code point.

  That order is not the order of the numeric suffixes: \<open>Period 10\<close> comes before
  \<open>Period 2\<close>.
\<close>

theorem C8_sorted_by_code_points:
  "sorted_wrt str_le (colunas_periodo df) \<and>
   mset (colunas_periodo df) = mset (filter match_period (columns df))"
  by (simp add: colunas_periodo_def sorted_sorted_py mset_sorted_py)

theorem C8_sorted_witness:
  "sorted_wrt str_le (colunas_periodo \<lparr>columns = [''Period 2'', ''Total'', ''Period 10''], rows = []\<rparr>) \<and>
   mset (colunas_periodo \<lparr>columns = [''Period 2'', ''Total'', ''Period 10''], rows = []\<rparr>) =
   mset (filter match_period (columns \<lparr>columns = [''Period 2'', ''Total'', ''Period 10''], rows = []\<rparr>))"
  by (rule C8_sorted_by_code_points)

theorem C8_counterexample:
  "colunas_periodo \<lparr>columns = [''Period 2'', ''Period 10''], rows = []\<rparr> =
     [''Period 10'', ''Period 2'']"
  by code_simp

subsection \<open>Rows are kept, in order\<close>

text \<open>
  Claim C9. Whenever the function returns a table, it has as many rows as the budget with
  its placeholder columns removed, with the same keys (project code, fiscal year) in the
  same order, and every cell outside the period columns of the range, the temporary column
  and the columns of stage 2 is as in that budget. Rows sharing a key are not multiplied:
  each left join is against an aggregation whose keys are distinct.
\<close>

theorem C9_rows_preserved:
  assumes "processar_dados_streamlit df_orcamento df_gastos ano periodo_inicial periodo_final = Inr out"
  shows "length (rows (tabela out)) = length (rows (drop_unnamed df_orcamento)) \<and>
         map linha_key (rows (tabela out)) = map linha_key (rows (drop_unnamed df_orcamento)) \<and>
         (\<forall>i < length (rows (tabela out)). \<forall>c.
            c \<notin> period_col ` {periodo_inicial..periodo_final} \<longrightarrow>
            c \<noteq> coluna_gasto_temp \<longrightarrow> c \<notin> colunas_derivadas \<longrightarrow>
            cell_at (rows (tabela out) ! i) c = cell_at (rows (drop_unnamed df_orcamento) ! i) c)"
proof -
  note r = processar_rows_stripped [OF assms]
  have len: "length (rows (tabela out)) = length (rows (drop_unnamed df_orcamento))"
    using r by (simp add: list_all2_lengthD)
  have "linha_key (rows (tabela out) ! i) = linha_key (rows (drop_unnamed df_orcamento) ! i)"
    if "i < length (rows (tabela out))" for i
    using r that len by (simp add: list_all2_conv_all_nth linha_key_def)
  then have keys: "map linha_key (rows (tabela out)) = map linha_key (rows (drop_unnamed df_orcamento))"
    using len by (simp add: list_eq_iff_nth_eq)
  have "cell_at (rows (tabela out) ! i) c = cell_at (rows (drop_unnamed df_orcamento) ! i) c"
    if "i < length (rows (tabela out))" "c \<notin> period_col ` {periodo_inicial..periodo_final}"
      "c \<noteq> coluna_gasto_temp" "c \<notin> colunas_derivadas" for i c
    using r that len by (simp add: list_all2_conv_all_nth)
  then show ?thesis using len keys by blast
qed

theorem C9_rows_preserved_witness:
  "processar_dados_streamlit orcamento_dup gastos_c7 2026 1 3 = Inr (Success saida_dup) \<and>
   linha_key (rows orcamento_dup ! 0) = linha_key (rows orcamento_dup ! 1) \<and>
   length (rows saida_dup) = length (rows (drop_unnamed orcamento_dup)) \<and>
   length (rows saida_dup) = 2 \<and>
   map linha_key (rows saida_dup) = map linha_key (rows (drop_unnamed orcamento_dup)) \<and>
   cell_at (rows saida_dup ! 1) ''Total'' = cell_at (rows (drop_unnamed orcamento_dup) ! 1) ''Total''"
proof -
  have d: "linha_key (rows orcamento_dup ! 0) = linha_key (rows orcamento_dup ! 1)" by code_simp
  have l: "length (rows saida_dup) = 2" by code_simp
  have 1: "''Total'' \<notin> period_col ` {1..3}"
  proof
    assume "''Total'' \<in> period_col ` {1..3}"
    then obtain p where "period_col p = ''Total''" by auto
    then show False using prefix_not_reserved(6) [OF period_col_prefix, of p] by simp
  qed
  have 2: "''Total'' \<noteq> coluna_gasto_temp" by code_simp
  have 3: "''Total'' \<notin> colunas_derivadas" by (simp add: colunas_derivadas_def)
  note r = C9_rows_preserved [OF exemplo_dup_eval]
  have "cell_at (rows saida_dup ! 1) ''Total'' = cell_at (rows (drop_unnamed orcamento_dup) ! 1) ''Total''"
    using r l 1 2 3 by simp
  then show ?thesis using r exemplo_dup_eval d l by simp
qed

subsection \<open>An empty range of periods\<close>



end
